theory Spec2Isabelle
  imports Main
begin

section \<open>JavaScript values\<close>

text \<open>
  The fields \<open>entity\<close> and \<open>metadata\<close> of the builder options are typed \<open>any\<close> in
  \<open>test-utils.tsx\<close>, and an API implementation is any value as well. They are modelled by a
  datatype of JavaScript values: the primitives, and objects. An object has its own
  properties, as an association list in insertion order, and a prototype (\<open>null\<close> at the
  end of the chain). Arrays and functions are objects too: the file applies only
  \<open>||\<close> and property reads to these values, which treat every object alike, so a function
  is the object of its properties, its own \<open>name\<close> among them.
  Numbers are the integer-valued ones; \<open>NaN\<close>, fractions, bigints and symbols are not
  represented. Properties are data properties: accessors and proxies are not represented.
\<close>

datatype jsval =
    JUndefined
  | JNull
  | JBool bool
  | JNum int
  | JStr string
  | JObj "(string \<times> jsval) list" jsval

text \<open>
  The built-in prototypes, as the language defines them. None of the property names
  the code reads (\<open>metadata\<close>, \<open>namespace\<close>, \<open>kind\<close>, \<open>name\<close>) is a property of
  \<open>Object.prototype\<close>; \<open>Function.prototype\<close> has \<open>name\<close>, the empty string. Their
  other properties, which the code never reads, are left out but for \<open>length\<close>.
\<close>

definition Object_prototype :: jsval where
  "Object_prototype = JObj [] JNull"

definition Function_prototype :: jsval where
  "Function_prototype = JObj [(''length'', JNum 0), (''name'', JStr '''')] Object_prototype"

text \<open>
  An object literal \<open>{k: v, ...}\<close>, and a function declared with a name (of no
  parameters), with the own properties \<open>length\<close> and \<open>name\<close> every function has.
\<close>

definition obj :: "(string \<times> jsval) list \<Rightarrow> jsval" where
  "obj fs = JObj fs Object_prototype"

definition fn :: "string \<Rightarrow> jsval" where
  "fn f = JObj [(''length'', JNum 0), (''name'', JStr f)] Function_prototype"

text \<open>JavaScript's \<open>ToBoolean\<close>: what \<open>||\<close> tests. Every object is truthy.\<close>

fun truthy :: "jsval \<Rightarrow> bool" where
  "truthy JUndefined = False"
| "truthy JNull = False"
| "truthy (JBool b) = b"
| "truthy (JNum n) = (n \<noteq> 0)"
| "truthy (JStr s) = (s \<noteq> [])"
| "truthy (JObj own proto) = True"

text \<open>\<open>a || b\<close>: the left operand when it is truthy, the right one otherwise.\<close>

definition js_or :: "jsval \<Rightarrow> jsval \<Rightarrow> jsval" where
  "js_or a b = (if truthy a then a else b)"

text \<open>
  The property read \<open>x.k\<close> on a value other than \<open>null\<close> and \<open>undefined\<close>: an object
  yields its own property when it has one, and otherwise what its prototype yields;
  \<open>None\<close> when the chain ends without the property. A string, a number or a boolean has
  none of the properties this file reads, neither of its own nor on its built-in
  prototype.
\<close>

fun get_property :: "jsval \<Rightarrow> string \<Rightarrow> jsval option" where
  "get_property (JObj own proto) k =
     (case map_of own k of Some v \<Rightarrow> Some v | None \<Rightarrow> get_property proto k)"
| "get_property JUndefined k = None"
| "get_property JNull k = None"
| "get_property (JBool b) k = None"
| "get_property (JNum n) k = None"
| "get_property (JStr s) k = None"

text \<open>
  \<open>x?.k\<close>: \<open>undefined\<close> when \<open>x\<close> is \<open>null\<close> or \<open>undefined\<close>; otherwise the property read,
  which is \<open>undefined\<close> for a property that is not found.
\<close>

fun opt_get :: "jsval \<Rightarrow> string \<Rightarrow> jsval" where
  "opt_get JUndefined k = JUndefined"
| "opt_get JNull k = JUndefined"
| "opt_get v k = (case get_property v k of None \<Rightarrow> JUndefined | Some u \<Rightarrow> u)"

section \<open>React elements\<close>

text \<open>
  A \<open>ReactElement\<close>: a fragment with its optional \<open>key\<close>, an intrinsic (HTML) element with
  string attributes, a component element named by its component with its props, or text.
\<close>

datatype ReactElement =
    Fragment "nat option" "ReactElement list"
  | Intrinsic string "(string \<times> string) list" "ReactElement list"
  | Component string "(string \<times> jsval) list" "ReactElement list"
  | TextNode string

section \<open>Builder options and module state\<close>

type_synonym ref = nat

text \<open>
  An API reference is an object with an \<open>id\<close>. The code compares references with
  \<open>Array.prototype.includes\<close>, that is by object identity, so a reference carries its
  identity (the address of the object) beside its id: two references made with the same
  id are two objects. \<open>Apis\<close> is an array of \<open>[ref, impl]\<close> pairs.
\<close>

datatype ApiRef = ApiRef (ref_identity: nat) (ref_id: string)

type_synonym Apis = "(ApiRef \<times> jsval) list"

text \<open>\<open>refs.includes(ref)\<close>: some element of \<open>refs\<close> is the same object as \<open>ref\<close>.\<close>

definition array_includes :: "ApiRef list \<Rightarrow> ApiRef \<Rightarrow> bool" where
  "array_includes refs r = (ref_identity r \<in> set (map ref_identity refs))"

text \<open>
  \<open>TechDocsAddonBuilderOptions\<close>. The field \<open>apis\<close> holds the address of an array, since
  \<open>build()\<close> copies that array and \<open>withApis\<close> replaces it. The field \<open>dom\<close> is named
  \<open>domE\<close> here.
\<close>

record TechDocsAddonBuilderOptions =
  domE :: ReactElement
  entity :: jsval
  metadata :: jsval
  componentId :: string
  readerPage :: "ReactElement option"
  apis :: ref
  path :: string

text \<open>
  Modelled from the spec: the module \<open>./mocks\<close> is not among the sources. Each of
  \<open>useTechDocsReaderDom\<close>, \<open>useParams\<close>, \<open>useTechDocsMetadata\<close>, \<open>useEntityMetadata\<close> is
  a last-value stub: after \<open>mockReturnValue v\<close> a call of the hook returns \<open>v\<close>; before,
  \<open>undefined\<close>. The record holds the current return value of each.
\<close>

record mocks =
  useTechDocsReaderDom :: "ReactElement option"
  useParams :: jsval
  useTechDocsMetadata :: jsval
  useEntityMetadata :: jsval

text \<open>
  The module state: the mocks, a store of options objects and a store of \<open>Apis\<close> arrays,
  both by address, and the next free array address.
\<close>

record world = mocks +
  objects :: "ref \<Rightarrow> TechDocsAddonBuilderOptions"
  arrays :: "ref \<Rightarrow> Apis"
  next_array :: ref

text \<open>
  The module-level constants. \<open>defaultOptions\<close> is one object, at the address
  \<open>defaultOptions_ref\<close>; its \<open>apis\<close> array \<open>[]\<close> is at array address 0.
\<close>

definition defaultOptions_ref :: ref where
  "defaultOptions_ref = 0"

definition defaultOptions :: TechDocsAddonBuilderOptions where
  "defaultOptions =
     \<lparr> domE = Fragment None [],
       entity = obj [],
       metadata = obj [],
       componentId = ''docs'',
       readerPage = None,
       apis = 0,
       path = [] \<rparr>"

definition defaultMetadata :: jsval where
  "defaultMetadata =
     obj [(''site_name'', JStr ''Tech Docs''), (''site_description'', JStr ''Tech Docs'')]"

definition defaultEntity :: jsval where
  "defaultEntity =
     obj [(''kind'', JStr ''Component''),
          (''metadata'', obj [(''namespace'', JStr ''default''), (''name'', JStr ''docs'')])]"

definition defaultDom :: ReactElement where
  "defaultDom =
     Intrinsic ''html'' [(''lang'', ''en'')]
       [Intrinsic ''head'' [] [],
        Intrinsic ''body'' []
          [Intrinsic ''div'' [(''data-md-component'', ''container'')]
             [Intrinsic ''div'' [(''data-md-component'', ''navigation'')] [],
              Intrinsic ''div'' [(''data-md-component'', ''toc'')] [],
              Intrinsic ''div'' [(''data-md-component'', ''main'')] []]]]"

text \<open>
  The state once the module is loaded: the object \<open>defaultOptions\<close> exists, no mock has a
  return value. No statement of the file creates another options object, so the other
  addresses of \<open>objects\<close> are never read.
\<close>

definition module_init :: world where
  "module_init =
     \<lparr> useTechDocsReaderDom = None,
       useParams = JUndefined,
       useTechDocsMetadata = JUndefined,
       useEntityMetadata = JUndefined,
       objects = (\<lambda>_. defaultOptions),
       arrays = (\<lambda>_. []),
       next_array = 1 \<rparr>"

section \<open>The builder\<close>

text \<open>
  A \<open>TechDocsAddonBuilder\<close> instance: \<open>options\<close> is a reference to an options object,
  \<open>addons\<close> the array given to the constructor.
\<close>

record TechDocsAddonBuilder =
  options :: ref
  addons :: "ReactElement list"

text \<open>
  The constructor. The field initialiser is \<open>options = defaultOptions\<close>: the new instance
  refers to the module-level object, nothing is allocated and the module state is
  unchanged.
\<close>

definition buildAddonsInTechDocs :: "ReactElement list \<Rightarrow> TechDocsAddonBuilder" where
  "buildAddonsInTechDocs as = \<lparr> options = defaultOptions_ref, addons = as \<rparr>"

text \<open>The options object a builder refers to, and the content of its \<open>apis\<close> array.\<close>

definition this_options :: "TechDocsAddonBuilder \<Rightarrow> world \<Rightarrow> TechDocsAddonBuilderOptions" where
  "this_options b w = objects w (options b)"

definition this_apis :: "TechDocsAddonBuilder \<Rightarrow> world \<Rightarrow> Apis" where
  "this_apis b w = arrays w (apis (this_options b w))"

text \<open>
  The configuration calls. Each assigns one field of \<open>this.options\<close> and returns \<open>this\<close>;
  the model returns the new module state, the builder being the same.

  \<open>withApis\<close>: \<open>refs\<close> are the first components of the new pairs; the existing pairs
  whose reference \<open>refs\<close> does not include, followed by the new pairs, form a new array
  (\<open>filter\<close> and \<open>concat\<close> do not write to the arrays they read), which is assigned to
  \<open>this.options.apis\<close>.
\<close>

definition withApis :: "TechDocsAddonBuilder \<Rightarrow> Apis \<Rightarrow> world \<Rightarrow> world" where
  "withApis b new_apis w =
     (let refs = map fst new_apis;
          result = filter (\<lambda>(r, impl). \<not> array_includes refs r) (this_apis b w) @ new_apis;
          a = next_array w
      in w \<lparr> arrays := (arrays w)(a := result),
             next_array := Suc a,
             objects := (objects w)(options b := (this_options b w)\<lparr> apis := a \<rparr>) \<rparr>)"

definition withDom :: "TechDocsAddonBuilder \<Rightarrow> ReactElement \<Rightarrow> world \<Rightarrow> world" where
  "withDom b d w =
     w \<lparr> objects := (objects w)(options b := (this_options b w)\<lparr> domE := d \<rparr>) \<rparr>"

definition withMetadata :: "TechDocsAddonBuilder \<Rightarrow> jsval \<Rightarrow> world \<Rightarrow> world" where
  "withMetadata b m w =
     w \<lparr> objects := (objects w)(options b := (this_options b w)\<lparr> metadata := m \<rparr>) \<rparr>"

definition withEntity :: "TechDocsAddonBuilder \<Rightarrow> jsval \<Rightarrow> world \<Rightarrow> world" where
  "withEntity b e w =
     w \<lparr> objects := (objects w)(options b := (this_options b w)\<lparr> entity := e \<rparr>) \<rparr>"

definition withReaderPage :: "TechDocsAddonBuilder \<Rightarrow> ReactElement \<Rightarrow> world \<Rightarrow> world" where
  "withReaderPage b p w =
     w \<lparr> objects := (objects w)(options b := (this_options b w)\<lparr> readerPage := Some p \<rparr>) \<rparr>"

definition atPath :: "TechDocsAddonBuilder \<Rightarrow> string \<Rightarrow> world \<Rightarrow> world" where
  "atPath b p w =
     w \<lparr> objects := (objects w)(options b := (this_options b w)\<lparr> path := p \<rparr>) \<rparr>"

subsection \<open>build\<close>

text \<open>
  The local \<open>entityName\<close> of \<open>build()\<close>: each of the three fields is read through
  optional chaining and falls back with \<open>||\<close> to the field of \<open>defaultEntity\<close>.
\<close>

record EntityName =
  namespace :: jsval
  kind :: jsval
  name :: jsval

definition entityName :: "jsval \<Rightarrow> EntityName" where
  "entityName e =
     \<lparr> namespace =
         js_or (opt_get (opt_get e ''metadata'') ''namespace'')
               (opt_get (opt_get defaultEntity ''metadata'') ''namespace''),
       kind = js_or (opt_get e ''kind'') (opt_get defaultEntity ''kind''),
       name =
         js_or (opt_get (opt_get e ''metadata'') ''name'')
               (opt_get (opt_get defaultEntity ''metadata'') ''name'') \<rparr>"

text \<open>
  \<open>xs.map((x, index) => f x index)\<close>: the callback receives each element with its
  position, counted from 0.
\<close>

fun map_from :: "nat \<Rightarrow> ('a \<Rightarrow> nat \<Rightarrow> 'b) \<Rightarrow> 'a list \<Rightarrow> 'b list" where
  "map_from i f [] = []"
| "map_from i f (x # xs) = f x i # map_from (Suc i) f xs"

definition map_index :: "('a \<Rightarrow> nat \<Rightarrow> 'b) \<Rightarrow> 'a list \<Rightarrow> 'b list" where
  "map_index f xs = map_from 0 f xs"

text \<open>
  The tree \<open>build()\<close> returns: \<open>TestApiProvider\<close> with its \<open>apis\<close> array (by address),
  inside it \<open>Routes\<close> with one \<open>Route\<close> of the given \<open>path\<close> and \<open>element\<close>, whose child is
  \<open>TechDocsAddons\<close> with the given children. \<open>wrapInTestApp\<close> wraps the whole and adds
  nothing the claims observe.
\<close>

record BuiltTree =
  provider_apis :: ref
  route_path :: string
  route_element :: "ReactElement option"
  addons_children :: "ReactElement list"

text \<open>
  \<open>a || b\<close> on React elements: an element is an object, and every object is truthy.
\<close>

definition truthy_element :: "ReactElement \<Rightarrow> bool" where
  "truthy_element el = True"

definition element_or :: "ReactElement \<Rightarrow> ReactElement \<Rightarrow> ReactElement" where
  "element_or a b = (if truthy_element a then a else b)"

text \<open>
  \<open>build()\<close>. The \<open>apis\<close> array is copied to a new array; the three metadata values are
  computed and given to the mocks (the spread of a module constant is a new object with
  the same properties, which as a value is the constant); the reader DOM is an \<open>html\<close>
  element whose content is the static markup of \<open>this.options.dom || defaultDom\<close>,
  represented by that React element; each addon is wrapped in a \<open>Fragment\<close> whose key is
  its index.
\<close>

definition build :: "TechDocsAddonBuilder \<Rightarrow> world \<Rightarrow> BuiltTree \<times> world" where
  "build b w =
     (let opts = this_options b w;
          a = next_array w;
          en = entityName (entity opts);
          techDocsMetadata =
            obj [(''loading'', JBool False), (''error'', JUndefined),
                 (''value'', js_or (metadata opts) defaultMetadata)];
          entityMetadata =
            obj [(''loading'', JBool False), (''error'', JUndefined),
                 (''value'', js_or (entity opts) defaultEntity)];
          params =
            obj [(''namespace'', namespace en), (''kind'', kind en), (''name'', name en),
                 (''*'', JStr (path opts))];
          tree =
            \<lparr> provider_apis = a,
              route_path = ''*'',
              route_element = readerPage opts,
              addons_children =
                map_index (\<lambda>addon index. Fragment (Some index) [addon]) (addons b) \<rparr>
      in (tree,
          w \<lparr> arrays := (arrays w)(a := this_apis b w),
              next_array := Suc a,
              useTechDocsMetadata := techDocsMetadata,
              useEntityMetadata := entityMetadata,
              useTechDocsReaderDom := Some (element_or (domE opts) defaultDom),
              useParams := params \<rparr>))"

subsection \<open>render\<close>

text \<open>
  The document: elements with a tag, attributes, an optional shadow root (its child
  nodes; \<open>None\<close> is \<open>null\<close>) and children, and text nodes.
\<close>

datatype dom_node =
    DomElement string "(string \<times> string) list" "dom_node list option" "dom_node list"
  | DomText string

fun shadowRoot_of :: "dom_node \<Rightarrow> dom_node list option" where
  "shadowRoot_of (DomElement tag attrs sh ch) = sh"
| "shadowRoot_of (DomText t) = None"

text \<open>
  The queries of the testing library (imported, not part of this repository), by their
  documented contract: \<open>queryAllByTestId\<close> collects the elements whose \<open>data-testid\<close>
  attribute is the given id (the imported variant also looks inside shadow roots);
  \<open>getByTestId\<close> returns the only match and throws when there is none or more than one.
\<close>

datatype error =
    NoElementFound string
  | MultipleElementsFound string

fun queryAllByTestId :: "string \<Rightarrow> dom_node \<Rightarrow> dom_node list" where
  "queryAllByTestId tid (DomText t) = []"
| "queryAllByTestId tid (DomElement tag attrs sh ch) =
     (if map_of attrs ''data-testid'' = Some tid then [DomElement tag attrs sh ch] else [])
     @ (case sh of None \<Rightarrow> [] | Some ns \<Rightarrow> concat (map (queryAllByTestId tid) ns))
     @ concat (map (queryAllByTestId tid) ch)"

definition getByTestId :: "dom_node \<Rightarrow> string \<Rightarrow> error + dom_node" where
  "getByTestId container tid =
     (case queryAllByTestId tid container of
        [] \<Rightarrow> Inl (NoElementFound tid)
      | [el] \<Rightarrow> Inr el
      | _ \<Rightarrow> Inl (MultipleElementsFound tid))"

text \<open>
  What \<open>render()\<close> returns: the \<open>screen\<close> queries, represented by the document they are
  bound to, with the field \<open>shadowRoot\<close>.
\<close>

record RenderResult =
  screen :: dom_node
  shadowRoot :: "dom_node list option"

text \<open>
  \<open>render()\<close>: builds, mounts the tree (\<open>mount\<close> stands for the testing library's
  \<open>render\<close>: it gives the document body after mounting), then looks the shadow host up with
  \<open>getByTestId\<close>. An exception of the lookup leaves the state as \<open>build()\<close> made it.
\<close>

definition render ::
  "TechDocsAddonBuilder \<Rightarrow> (BuiltTree \<Rightarrow> dom_node) \<Rightarrow> world \<Rightarrow> (error + RenderResult) \<times> world"
where
  "render b mount w =
     (let (tree, w') = build b w;
          body = mount tree
      in (case getByTestId body ''techdocs-native-shadowroot'' of
            Inl e \<Rightarrow> Inl e
          | Inr shadowHost \<Rightarrow> Inr \<lparr> screen = body, shadowRoot = shadowRoot_of shadowHost \<rparr>,
          w'))"

section \<open>Notions used to state the properties\<close>

text \<open>
  A field is present on a value when the property reads that lead to it all find a
  property, own or inherited: \<open>field_path\<close> follows a list of property names and is
  \<open>None\<close> as soon as one of them is not found.
\<close>

fun field_path :: "jsval \<Rightarrow> string list \<Rightarrow> jsval option" where
  "field_path v [] = Some v"
| "field_path v (k # ks) =
     (case get_property v k of None \<Rightarrow> None | Some u \<Rightarrow> field_path u ks)"

text \<open>The \<open>key\<close> and the children of a React element.\<close>

fun key_of :: "ReactElement \<Rightarrow> nat option" where
  "key_of (Fragment k cs) = k"
| "key_of (Intrinsic t ps cs) = None"
| "key_of (Component c ps cs) = None"
| "key_of (TextNode s) = None"

fun children_of :: "ReactElement \<Rightarrow> ReactElement list" where
  "children_of (Fragment k cs) = cs"
| "children_of (Intrinsic t ps cs) = cs"
| "children_of (Component c ps cs) = cs"
| "children_of (TextNode s) = []"

text \<open>
  A module state is well formed when every array address held by an options object has
  been allocated, that is, lies below the next free address.
\<close>

definition wf_world :: "world \<Rightarrow> bool" where
  "wf_world w = (\<forall>r. apis (objects w r) < next_array w)"

section \<open>Properties of the configuration calls\<close>

lemma options_buildAddonsInTechDocs:
  "options (buildAddonsInTechDocs as) = defaultOptions_ref"
  by (simp add: buildAddonsInTechDocs_def)

lemma this_options_withApis:
  "this_options b (withApis b A w) = (this_options b w)\<lparr> apis := next_array w \<rparr>"
  by (simp add: withApis_def this_options_def Let_def)

lemma this_apis_withApis:
  "this_apis b (withApis b A w) =
     filter (\<lambda>(r, impl). \<not> array_includes (map fst A) r) (this_apis b w) @ A"
  by (simp add: this_apis_def this_options_withApis)
     (simp add: withApis_def Let_def this_apis_def)

lemma filter_keys_self: "filter (\<lambda>(r, impl). array_includes (map fst B) r) B = B"
proof -
  have "\<forall>x \<in> set B. array_includes (map fst B) (fst x)"
    by (auto simp: array_includes_def)
  then show ?thesis
    by (simp add: split_def)
qed

lemma filter_keys_none:
  "filter (\<lambda>(r, impl). array_includes (map fst B) r)
     (filter (\<lambda>(r, impl). \<not> array_includes (map fst B) r) xs) = []"
  by (induction xs) (auto simp: split_def)

text \<open>
  Two references with one id are two keys: registering under the second leaves the
  entry of the first in place.
\<close>

lemma withApis_same_id_other_reference:
  "this_apis (buildAddonsInTechDocs [])
     (withApis (buildAddonsInTechDocs []) [(ApiRef 2 ''x'', JStr ''second'')]
        (withApis (buildAddonsInTechDocs []) [(ApiRef 1 ''x'', JStr ''first'')] module_init))
   = [(ApiRef 1 ''x'', JStr ''first''), (ApiRef 2 ''x'', JStr ''second'')]"
  by (simp add: this_apis_withApis array_includes_def)
     (simp add: this_apis_def this_options_def buildAddonsInTechDocs_def module_init_def)

lemma entity_withEntity: "entity (this_options b (withEntity b e w)) = e"
  by (simp add: withEntity_def this_options_def)

lemma path_atPath: "path (this_options b (atPath b p w)) = p"
  by (simp add: atPath_def this_options_def)

lemma atPath_twice: "atPath b p2 (atPath b p1 w) = atPath b p2 w"
  by (simp add: atPath_def this_options_def)

subsection \<open>Well-formed states\<close>

lemma wf_world_module_init: "wf_world module_init"
  by (simp add: wf_world_def module_init_def defaultOptions_def)

lemma wf_world_withApis: "wf_world w \<Longrightarrow> wf_world (withApis b A w)"
  by (simp add: wf_world_def withApis_def Let_def this_options_def less_Suc_eq)

lemma wf_world_withDom: "wf_world w \<Longrightarrow> wf_world (withDom b d w)"
  by (simp add: wf_world_def withDom_def this_options_def)

lemma wf_world_withMetadata: "wf_world w \<Longrightarrow> wf_world (withMetadata b m w)"
  by (simp add: wf_world_def withMetadata_def this_options_def)

lemma wf_world_withEntity: "wf_world w \<Longrightarrow> wf_world (withEntity b e w)"
  by (simp add: wf_world_def withEntity_def this_options_def)

lemma wf_world_withReaderPage: "wf_world w \<Longrightarrow> wf_world (withReaderPage b p w)"
  by (simp add: wf_world_def withReaderPage_def this_options_def)

lemma wf_world_atPath: "wf_world w \<Longrightarrow> wf_world (atPath b p w)"
  by (simp add: wf_world_def atPath_def this_options_def)

lemma wf_world_build: "wf_world w \<Longrightarrow> wf_world (snd (build b w))"
  by (simp add: wf_world_def build_def Let_def less_Suc_eq)

section \<open>Properties of build\<close>

lemma useParams_build:
  "useParams (snd (build b w)) =
     obj [(''namespace'', namespace (entityName (entity (this_options b w)))),
          (''kind'', kind (entityName (entity (this_options b w)))),
          (''name'', name (entityName (entity (this_options b w)))),
          (''*'', JStr (path (this_options b w)))]"
  by (simp add: build_def Let_def)

lemma opt_get_get_property:
  "opt_get v k = (case get_property v k of None \<Rightarrow> JUndefined | Some u \<Rightarrow> u)"
  by (cases v) simp_all

lemma kind_entityName:
  "kind (entityName e) =
     (case field_path e [''kind''] of
        None \<Rightarrow> JStr ''Component''
      | Some v \<Rightarrow> if truthy v then v else JStr ''Component'')"
  by (simp add: entityName_def js_or_def defaultEntity_def obj_def opt_get_get_property
           split: option.splits)

lemma namespace_entityName:
  "namespace (entityName e) =
     (case field_path e [''metadata'', ''namespace''] of
        None \<Rightarrow> JStr ''default''
      | Some v \<Rightarrow> if truthy v then v else JStr ''default'')"
  by (simp add: entityName_def js_or_def defaultEntity_def obj_def opt_get_get_property
           split: option.splits)

lemma name_entityName:
  "name (entityName e) =
     (case field_path e [''metadata'', ''name''] of
        None \<Rightarrow> JStr ''docs''
      | Some v \<Rightarrow> if truthy v then v else JStr ''docs'')"
  by (simp add: entityName_def js_or_def defaultEntity_def obj_def opt_get_get_property
           split: option.splits)

lemma params_namespace:
  "opt_get (useParams (snd (build b (withEntity b e w)))) ''namespace'' =
     namespace (entityName e)"
  by (simp add: useParams_build entity_withEntity obj_def)

lemma params_kind:
  "opt_get (useParams (snd (build b (withEntity b e w)))) ''kind'' = kind (entityName e)"
  by (simp add: useParams_build entity_withEntity obj_def)

lemma params_name:
  "opt_get (useParams (snd (build b (withEntity b e w)))) ''name'' = name (entityName e)"
  by (simp add: useParams_build entity_withEntity obj_def)

lemma map_from_eq: "map_from i f xs = map (\<lambda>j. f (xs ! j) (i + j)) [0..<length xs]"
proof (induction xs arbitrary: i)
  case Nil
  show ?case by simp
next
  case (Cons x xs)
  have "[0..<length (x # xs)] = 0 # map Suc [0..<length xs]"
    by (simp add: upt_conv_Cons map_Suc_upt del: upt_Suc)
  then show ?case
    by (simp add: Cons.IH comp_def del: upt_Suc)
qed

lemma addons_children_build:
  "addons_children (fst (build b w)) =
     map (\<lambda>i. Fragment (Some i) [addons b ! i]) [0..<length (addons b)]"
  by (simp add: build_def Let_def map_index_def map_from_eq)

lemma render_raises_without_host:
  assumes "queryAllByTestId ''techdocs-native-shadowroot'' (mount (fst (build b w))) = []"
  shows "fst (render b mount w) = Inl (NoElementFound ''techdocs-native-shadowroot'')"
  using assms by (simp add: render_def getByTestId_def case_prod_beta Let_def)

lemma render_returns_shadowRoot_of_host:
  assumes "queryAllByTestId ''techdocs-native-shadowroot'' (mount (fst (build b w))) = [host]"
  shows "fst (render b mount w) =
           Inr \<lparr> screen = mount (fst (build b w)), shadowRoot = shadowRoot_of host \<rparr>"
  using assms by (simp add: render_def getByTestId_def case_prod_beta Let_def)

section \<open>The claims\<close>

text \<open>
  C1. The claim: every builder instance has its own fresh options, so a configuration
  call on one builder leaves the options seen by every other builder unchanged.
  Evaluated on the code: two distinct builders made by \<open>buildAddonsInTechDocs\<close> hold the
  same options reference; once the module is loaded the second builder reads the empty
  path, and after \<open>atPath\<close> with \<open>/foo\<close> on the first builder the second reads \<open>/foo\<close>.
\<close>

theorem C1_builders_share_options:
  "buildAddonsInTechDocs [TextNode ''a''] \<noteq> buildAddonsInTechDocs [TextNode ''b'']
   \<and> options (buildAddonsInTechDocs [TextNode ''a'']) =
       options (buildAddonsInTechDocs [TextNode ''b''])
   \<and> path (this_options (buildAddonsInTechDocs [TextNode ''b'']) module_init) = ''''
   \<and> path (this_options (buildAddonsInTechDocs [TextNode ''b''])
             (atPath (buildAddonsInTechDocs [TextNode ''a'']) ''/foo'' module_init)) = ''/foo''"
  by (simp add: buildAddonsInTechDocs_def this_options_def atPath_def module_init_def
        defaultOptions_def)

text \<open>
  C2. The claim: on a tree that renders no element with the test id
  \<open>techdocs-native-shadowroot\<close>, \<open>render()\<close> does not raise and returns a null
  \<open>shadowRoot\<close>. Evaluated on the code: with an empty addon list, the default options and
  a mounted document without such an element, the lookup \<open>getByTestId\<close> throws and
  \<open>render()\<close> raises.
\<close>

theorem C2_render_without_host_raises:
  "fst (render (buildAddonsInTechDocs [])
          (\<lambda>tree. DomElement ''body'' [] None [DomElement ''div'' [] None []])
          module_init)
   = Inl (NoElementFound ''techdocs-native-shadowroot'')"
  by (simp add: render_def getByTestId_def case_prod_beta Let_def)


text \<open>
  C3, as stated: the fields of the entity given to \<open>withEntity\<close> that are present keep
  their supplied values in the identity \<open>build()\<close> resolves. This fails for a present
  field with a falsy value: the entity below has no \<open>metadata.namespace\<close>, it has the
  own property \<open>kind\<close>, equal to the empty string, and the resolved kind is \<open>Component\<close>.
\<close>

theorem C3_present_empty_kind_replaced:
  "field_path (obj [(''kind'', JStr ''''), (''metadata'', obj [(''name'', JStr ''n'')])])
       [''kind''] = Some (JStr '''')
   \<and> opt_get (useParams (snd (build (buildAddonsInTechDocs [])
       (withEntity (buildAddonsInTechDocs [])
          (obj [(''kind'', JStr ''''), (''metadata'', obj [(''name'', JStr ''n'')])])
          module_init)))) ''kind''
       = JStr ''Component''"
  by (simp add: params_kind kind_entityName obj_def fn_def Object_prototype_def Function_prototype_def)

text \<open>
  C3, amended: for every entity given to \<open>withEntity\<close>, \<open>build()\<close> resolves the identity
  field by field. Each of \<open>metadata.namespace\<close>, \<open>kind\<close>, \<open>metadata.name\<close> that is missing
  takes its default (\<open>default\<close>, \<open>Component\<close>, \<open>docs\<close>), and each that is present with a
  truthy value keeps the supplied value, whatever the other two fields are. A field is
  present when the entity's property reads find it, as an own or an inherited property
  of an object or of a function.
\<close>

theorem C3_entity_identity_field_by_field:
  "(field_path e [''metadata'', ''namespace''] = None \<longrightarrow>
      opt_get (useParams (snd (build b (withEntity b e w)))) ''namespace'' = JStr ''default'')
   \<and> (field_path e [''metadata'', ''namespace''] = Some vn \<and> truthy vn \<longrightarrow>
      opt_get (useParams (snd (build b (withEntity b e w)))) ''namespace'' = vn)
   \<and> (field_path e [''kind''] = None \<longrightarrow>
      opt_get (useParams (snd (build b (withEntity b e w)))) ''kind'' = JStr ''Component'')
   \<and> (field_path e [''kind''] = Some vk \<and> truthy vk \<longrightarrow>
      opt_get (useParams (snd (build b (withEntity b e w)))) ''kind'' = vk)
   \<and> (field_path e [''metadata'', ''name''] = None \<longrightarrow>
      opt_get (useParams (snd (build b (withEntity b e w)))) ''name'' = JStr ''docs'')
   \<and> (field_path e [''metadata'', ''name''] = Some vm \<and> truthy vm \<longrightarrow>
      opt_get (useParams (snd (build b (withEntity b e w)))) ''name'' = vm)"
  unfolding params_namespace params_kind params_name
  by (simp add: namespace_entityName kind_entityName name_entityName)

text \<open>
  Four entities: one with a kind and a name and no namespace, where the namespace alone is
  defaulted; one with a namespace only, where the kind and the name are defaulted; one
  whose \<open>metadata\<close> is a function named \<open>foo\<close>, where the name is the function's own
  \<open>name\<close>; one that inherits its kind from its prototype.
\<close>

theorem C3_entity_identity_witness:
  "(field_path (obj [(''kind'', JStr ''API''), (''metadata'', obj [(''name'', JStr ''x'')])])
        [''metadata'', ''namespace''] = None
    \<and> field_path (obj [(''kind'', JStr ''API''), (''metadata'', obj [(''name'', JStr ''x'')])])
        [''kind''] = Some (JStr ''API'') \<and> truthy (JStr ''API'')
    \<and> field_path (obj [(''kind'', JStr ''API''), (''metadata'', obj [(''name'', JStr ''x'')])])
        [''metadata'', ''name''] = Some (JStr ''x'') \<and> truthy (JStr ''x'')
    \<and> opt_get (useParams (snd (build (buildAddonsInTechDocs [])
        (withEntity (buildAddonsInTechDocs [])
           (obj [(''kind'', JStr ''API''), (''metadata'', obj [(''name'', JStr ''x'')])])
           module_init)))) ''namespace'' = JStr ''default''
    \<and> opt_get (useParams (snd (build (buildAddonsInTechDocs [])
        (withEntity (buildAddonsInTechDocs [])
           (obj [(''kind'', JStr ''API''), (''metadata'', obj [(''name'', JStr ''x'')])])
           module_init)))) ''kind'' = JStr ''API''
    \<and> opt_get (useParams (snd (build (buildAddonsInTechDocs [])
        (withEntity (buildAddonsInTechDocs [])
           (obj [(''kind'', JStr ''API''), (''metadata'', obj [(''name'', JStr ''x'')])])
           module_init)))) ''name'' = JStr ''x'')
   \<and> (field_path (obj [(''metadata'', obj [(''namespace'', JStr ''team'')])])
        [''metadata'', ''namespace''] = Some (JStr ''team'') \<and> truthy (JStr ''team'')
    \<and> field_path (obj [(''metadata'', obj [(''namespace'', JStr ''team'')])])
        [''kind''] = None
    \<and> field_path (obj [(''metadata'', obj [(''namespace'', JStr ''team'')])])
        [''metadata'', ''name''] = None
    \<and> opt_get (useParams (snd (build (buildAddonsInTechDocs [])
        (withEntity (buildAddonsInTechDocs [])
           (obj [(''metadata'', obj [(''namespace'', JStr ''team'')])])
           module_init)))) ''namespace'' = JStr ''team''
    \<and> opt_get (useParams (snd (build (buildAddonsInTechDocs [])
        (withEntity (buildAddonsInTechDocs [])
           (obj [(''metadata'', obj [(''namespace'', JStr ''team'')])])
           module_init)))) ''kind'' = JStr ''Component''
    \<and> opt_get (useParams (snd (build (buildAddonsInTechDocs [])
        (withEntity (buildAddonsInTechDocs [])
           (obj [(''metadata'', obj [(''namespace'', JStr ''team'')])])
           module_init)))) ''name'' = JStr ''docs'')
   \<and> (field_path (obj [(''metadata'', fn ''foo'')])
        [''metadata'', ''name''] = Some (JStr ''foo'') \<and> truthy (JStr ''foo'')
    \<and> opt_get (useParams (snd (build (buildAddonsInTechDocs [])
        (withEntity (buildAddonsInTechDocs [])
           (obj [(''metadata'', fn ''foo'')])
           module_init)))) ''name'' = JStr ''foo'')
   \<and> (field_path (JObj [] (obj [(''kind'', JStr ''API'')]))
        [''kind''] = Some (JStr ''API'')
    \<and> opt_get (useParams (snd (build (buildAddonsInTechDocs [])
        (withEntity (buildAddonsInTechDocs [])
           (JObj [] (obj [(''kind'', JStr ''API'')]))
           module_init)))) ''kind'' = JStr ''API'')"
  using C3_entity_identity_field_by_field
      [of "obj [(''kind'', JStr ''API''), (''metadata'', obj [(''name'', JStr ''x'')])]"
          "buildAddonsInTechDocs []" module_init "JStr ''n''" "JStr ''API''" "JStr ''x''"]
    C3_entity_identity_field_by_field
      [of "obj [(''metadata'', obj [(''namespace'', JStr ''team'')])]"
          "buildAddonsInTechDocs []" module_init "JStr ''team''" "JStr ''k''" "JStr ''m''"]
    C3_entity_identity_field_by_field
      [of "obj [(''metadata'', fn ''foo'')]"
          "buildAddonsInTechDocs []" module_init "JStr ''n''" "JStr ''k''" "JStr ''foo''"]
    C3_entity_identity_field_by_field
      [of "JObj [] (obj [(''kind'', JStr ''API'')])"
          "buildAddonsInTechDocs []" module_init "JStr ''n''" "JStr ''API''" "JStr ''m''"]
  by (simp add: obj_def fn_def Object_prototype_def Function_prototype_def)

text \<open>
  C4. The key of an entry is its API reference, compared as the code compares it, by
  identity. For every builder and state, after \<open>withApis A\<close> then \<open>withApis B\<close> the
  builder's \<open>apis\<close> array is: the earlier entries whose reference is in neither \<open>A\<close> nor
  \<open>B\<close>, then the entries of \<open>A\<close> whose reference is not in \<open>B\<close>, in their order in \<open>A\<close>,
  then \<open>B\<close>; and its entries with a reference of \<open>B\<close> are exactly the entries of \<open>B\<close>, in
  order.
\<close>

theorem C4_withApis_last_registration_wins:
  "this_apis b (withApis b B (withApis b A w)) =
     filter (\<lambda>(r, impl). \<not> array_includes (map fst A) r \<and> \<not> array_includes (map fst B) r)
       (this_apis b w)
     @ filter (\<lambda>(r, impl). \<not> array_includes (map fst B) r) A
     @ B
   \<and> filter (\<lambda>(r, impl). array_includes (map fst B) r)
        (this_apis b (withApis b B (withApis b A w))) = B"
proof
  show "this_apis b (withApis b B (withApis b A w)) =
     filter (\<lambda>(r, impl). \<not> array_includes (map fst A) r \<and> \<not> array_includes (map fst B) r)
       (this_apis b w)
     @ filter (\<lambda>(r, impl). \<not> array_includes (map fst B) r) A
     @ B"
    by (simp add: this_apis_withApis split_def)
next
  have "this_apis b (withApis b B (withApis b A w)) =
          filter (\<lambda>(r, impl). \<not> array_includes (map fst B) r) (this_apis b (withApis b A w)) @ B"
    by (rule this_apis_withApis)
  then show "filter (\<lambda>(r, impl). array_includes (map fst B) r)
        (this_apis b (withApis b B (withApis b A w))) = B"
    by (simp only: filter_append filter_keys_none filter_keys_self append_Nil)
qed

text \<open>
  C5. The claim: on a builder on which \<open>withMetadata\<close> was never called, \<open>build()\<close> gives
  the metadata hook the value of the default page metadata (site name and description).
  Evaluated on the code, once the module is loaded and with no configuration call at all:
  the registered value is the empty object of \<open>defaultOptions.metadata\<close>, which is truthy,
  so \<open>||\<close> never reaches \<open>defaultMetadata\<close>.
\<close>

theorem C5_unset_metadata_is_empty_object:
  "useTechDocsMetadata (snd (build (buildAddonsInTechDocs []) module_init)) =
     obj [(''loading'', JBool False), (''error'', JUndefined), (''value'', obj [])]
   \<and> opt_get (useTechDocsMetadata (snd (build (buildAddonsInTechDocs []) module_init))) ''value''
       \<noteq> defaultMetadata"
  by (simp add: build_def Let_def buildAddonsInTechDocs_def this_options_def module_init_def
        defaultOptions_def defaultMetadata_def js_or_def obj_def)

text \<open>
  C6. For every builder, state and paths \<open>p1\<close>, \<open>p2\<close>: \<open>atPath p1\<close> followed by
  \<open>atPath p2\<close> gives the same state as \<open>atPath p2\<close> alone, so \<open>build()\<close> returns the same
  tree and the same state after either, and the route parameters it registers hold \<open>p2\<close>
  under the wildcard key.
\<close>

theorem C6_atPath_last_value:
  "atPath b p2 (atPath b p1 w) = atPath b p2 w
   \<and> build b (atPath b p2 (atPath b p1 w)) = build b (atPath b p2 w)
   \<and> opt_get (useParams (snd (build b (atPath b p2 (atPath b p1 w))))) ''*'' = JStr p2"
  by (simp add: atPath_twice useParams_build path_atPath obj_def)

text \<open>
  C7. The claim: after \<open>build()\<close> the route parameters are the resolved identity triple
  and the wildcard key bound to the configured path, which is the empty string on a
  builder on which \<open>atPath\<close> was never called. Evaluated on the code: a builder that
  never received \<open>atPath\<close> registers the path \<open>/foo\<close> that another builder was given.
\<close>

theorem C7_wildcard_holds_path_of_other_builder:
  "useParams (snd (build (buildAddonsInTechDocs [TextNode ''b''])
      (atPath (buildAddonsInTechDocs [TextNode ''a'']) ''/foo'' module_init))) =
     obj [(''namespace'', JStr ''default''), (''kind'', JStr ''Component''),
          (''name'', JStr ''docs''), (''*'', JStr ''/foo'')]"
  by (simp add: useParams_build namespace_entityName kind_entityName name_entityName)
     (simp add: buildAddonsInTechDocs_def this_options_def atPath_def module_init_def
        defaultOptions_def obj_def Object_prototype_def)

text \<open>
  C8. For every addon list and state, the children \<open>build()\<close> gives to the addon-hosting
  container are one fragment per addon, in the order of the list and with repeated
  addons kept: the fragment at position \<open>i\<close> has the key \<open>i\<close> and the addon at position \<open>i\<close>
  as its only child.
\<close>

theorem C8_addons_in_order_keyed_by_index:
  "addons_children (fst (build (buildAddonsInTechDocs as) w)) =
     map (\<lambda>i. Fragment (Some i) [as ! i]) [0..<length as]
   \<and> concat (map children_of (addons_children (fst (build (buildAddonsInTechDocs as) w)))) = as
   \<and> map key_of (addons_children (fst (build (buildAddonsInTechDocs as) w))) =
       map Some [0..<length as]"
proof -
  have A: "addons_children (fst (build (buildAddonsInTechDocs as) w)) =
     map (\<lambda>i. Fragment (Some i) [as ! i]) [0..<length as]"
    by (simp add: addons_children_build buildAddonsInTechDocs_def)
  have B: "concat (map children_of (map (\<lambda>i. Fragment (Some i) [as ! i]) [0..<length as])) = as"
    by (simp add: comp_def map_nth)
  have C: "map key_of (map (\<lambda>i. Fragment (Some i) [as ! i]) [0..<length as]) =
             map Some [0..<length as]"
    by (simp add: comp_def)
  show ?thesis
    unfolding A using B C by simp
qed

text \<open>
  C9. For every builder and state: \<open>build()\<close> leaves every options object as it was, and
  the content of the builder's \<open>apis\<close> array too; the array of the returned tree holds
  that content. A later \<open>withApis\<close> gives the builder's options a new array (the earlier
  entries not overridden, then the new ones), at another address than the tree's array,
  whose content stays what it was at \<open>build()\<close>.
  In a well-formed state the tree's array is a copy: it is another array than the one
  the builder's options hold, before and after \<open>build()\<close>, no options object holds it, so
  writing to the options' array would leave it as it is; and the states after \<open>build()\<close>
  and after the later \<open>withApis\<close> are well formed again.
\<close>

theorem C9_build_snapshots_apis:
  "objects (snd (build b w)) = objects w
   \<and> this_apis b (snd (build b w)) = this_apis b w
   \<and> arrays (snd (build b w)) (provider_apis (fst (build b w))) = this_apis b w
   \<and> this_apis b (withApis b B (snd (build b w))) =
       filter (\<lambda>(r, impl). \<not> array_includes (map fst B) r) (this_apis b w) @ B
   \<and> apis (this_options b (withApis b B (snd (build b w)))) \<noteq> provider_apis (fst (build b w))
   \<and> arrays (withApis b B (snd (build b w))) (provider_apis (fst (build b w))) = this_apis b w
   \<and> (wf_world w \<longrightarrow>
        provider_apis (fst (build b w)) \<noteq> apis (this_options b w)
        \<and> provider_apis (fst (build b w)) \<noteq> apis (this_options b (snd (build b w)))
        \<and> (\<forall>r. apis (objects (snd (build b w)) r) \<noteq> provider_apis (fst (build b w)))
        \<and> (\<forall>xs. ((arrays (snd (build b w))) (apis (this_options b (snd (build b w))) := xs))
                   (provider_apis (fst (build b w))) = this_apis b w)
        \<and> wf_world (snd (build b w))
        \<and> wf_world (withApis b B (snd (build b w))))"
proof -
  have obj: "objects (snd (build b w)) = objects w"
    by (simp add: build_def Let_def)
  have nxt: "next_array (snd (build b w)) = Suc (next_array w)"
    by (simp add: build_def Let_def)
  have tree: "provider_apis (fst (build b w)) = next_array w"
    by (simp add: build_def Let_def)
  have copy: "arrays (snd (build b w)) (next_array w) = this_apis b w"
    by (simp add: build_def Let_def)
  have opts: "this_options b (snd (build b w)) = this_options b w"
    by (simp add: this_options_def obj)
  have same: "this_apis b (snd (build b w)) = this_apis b w"
    by (simp add: this_apis_def opts) (simp add: build_def Let_def this_apis_def)
  have later: "arrays (withApis b B (snd (build b w))) (next_array w) = this_apis b w"
    by (simp add: withApis_def Let_def nxt copy)
  have new_ref: "apis (this_options b (withApis b B (snd (build b w)))) = Suc (next_array w)"
    by (simp add: this_options_withApis nxt)
  have unconditional:
    "objects (snd (build b w)) = objects w
     \<and> this_apis b (snd (build b w)) = this_apis b w
     \<and> arrays (snd (build b w)) (provider_apis (fst (build b w))) = this_apis b w
     \<and> this_apis b (withApis b B (snd (build b w))) =
         filter (\<lambda>(r, impl). \<not> array_includes (map fst B) r) (this_apis b w) @ B
     \<and> apis (this_options b (withApis b B (snd (build b w)))) \<noteq> provider_apis (fst (build b w))
     \<and> arrays (withApis b B (snd (build b w))) (provider_apis (fst (build b w))) = this_apis b w"
    by (simp add: obj same tree copy later new_ref this_apis_withApis)
  have copied: "provider_apis (fst (build b w)) \<noteq> apis (this_options b w)
        \<and> provider_apis (fst (build b w)) \<noteq> apis (this_options b (snd (build b w)))
        \<and> (\<forall>r. apis (objects (snd (build b w)) r) \<noteq> provider_apis (fst (build b w)))
        \<and> (\<forall>xs. ((arrays (snd (build b w))) (apis (this_options b (snd (build b w))) := xs))
                   (provider_apis (fst (build b w))) = this_apis b w)
        \<and> wf_world (snd (build b w))
        \<and> wf_world (withApis b B (snd (build b w)))"
    if wf: "wf_world w"
  proof -
    have below: "apis (objects w r) < next_array w" for r
      using wf by (simp add: wf_world_def)
    have other: "apis (objects w r) \<noteq> next_array w" for r
      using below [of r] by simp
    have mine: "apis (this_options b w) \<noteq> next_array w"
      using other [of "options b"] by (simp add: this_options_def)
    have mine': "next_array w \<noteq> apis (this_options b w)"
      using mine by simp
    have wf1: "wf_world (snd (build b w))"
      using wf by (rule wf_world_build)
    have wf2: "wf_world (withApis b B (snd (build b w)))"
      using wf1 by (rule wf_world_withApis)
    show ?thesis
      by (simp add: tree opts obj other mine mine' copy wf1 wf2)
  qed
  show ?thesis
    using unconditional copied by blast
qed

text \<open>
  A well-formed state with one registered API, reached from the loaded module: the
  tree's array is the array 2, the options hold the array 1, and after a later
  \<open>withApis\<close> the tree's array still holds the one entry registered before \<open>build()\<close>.
\<close>

theorem C9_build_snapshots_apis_witness:
  "wf_world (withApis (buildAddonsInTechDocs []) [(ApiRef 7 ''scm'', obj [])] module_init)
   \<and> apis (this_options (buildAddonsInTechDocs [])
        (withApis (buildAddonsInTechDocs []) [(ApiRef 7 ''scm'', obj [])] module_init)) = 1
   \<and> provider_apis (fst (build (buildAddonsInTechDocs [])
        (withApis (buildAddonsInTechDocs []) [(ApiRef 7 ''scm'', obj [])] module_init))) = 2
   \<and> provider_apis (fst (build (buildAddonsInTechDocs [])
        (withApis (buildAddonsInTechDocs []) [(ApiRef 7 ''scm'', obj [])] module_init)))
       \<noteq> apis (this_options (buildAddonsInTechDocs [])
            (withApis (buildAddonsInTechDocs []) [(ApiRef 7 ''scm'', obj [])] module_init))
   \<and> arrays
        (withApis (buildAddonsInTechDocs []) [(ApiRef 8 ''other'', JNull)]
           (snd (build (buildAddonsInTechDocs [])
              (withApis (buildAddonsInTechDocs []) [(ApiRef 7 ''scm'', obj [])] module_init))))
        (provider_apis (fst (build (buildAddonsInTechDocs [])
           (withApis (buildAddonsInTechDocs []) [(ApiRef 7 ''scm'', obj [])] module_init))))
       = [(ApiRef 7 ''scm'', obj [])]"
proof -
  have wf: "wf_world (withApis (buildAddonsInTechDocs []) [(ApiRef 7 ''scm'', obj [])] module_init)"
    using wf_world_module_init by (rule wf_world_withApis)
  have held: "apis (this_options (buildAddonsInTechDocs [])
        (withApis (buildAddonsInTechDocs []) [(ApiRef 7 ''scm'', obj [])] module_init)) = 1"
    by (simp add: this_options_withApis module_init_def)
  have tree: "provider_apis (fst (build (buildAddonsInTechDocs [])
        (withApis (buildAddonsInTechDocs []) [(ApiRef 7 ''scm'', obj [])] module_init))) = 2"
    by (simp add: build_def Let_def withApis_def module_init_def)
  have content: "this_apis (buildAddonsInTechDocs [])
        (withApis (buildAddonsInTechDocs []) [(ApiRef 7 ''scm'', obj [])] module_init)
      = [(ApiRef 7 ''scm'', obj [])]"
    by (simp add: this_apis_withApis)
       (simp add: this_apis_def this_options_def buildAddonsInTechDocs_def module_init_def)
  show ?thesis
    using C9_build_snapshots_apis
      [of "buildAddonsInTechDocs []"
          "withApis (buildAddonsInTechDocs []) [(ApiRef 7 ''scm'', obj [])] module_init"
          "[(ApiRef 8 ''other'', JNull)]"]
      wf
    by (simp add: held tree content)
qed

text \<open>
  C10. For every entity given to \<open>withEntity\<close>: a field among \<open>metadata.namespace\<close>,
  \<open>kind\<close>, \<open>metadata.name\<close> that is present with a falsy value, the empty string among
  them, is resolved by \<open>build()\<close> to its default (\<open>default\<close>, \<open>Component\<close>, \<open>docs\<close>).
\<close>

theorem C10_falsy_field_takes_default:
  "(field_path e [''metadata'', ''namespace''] = Some vn \<and> \<not> truthy vn \<longrightarrow>
      opt_get (useParams (snd (build b (withEntity b e w)))) ''namespace'' = JStr ''default'')
   \<and> (field_path e [''kind''] = Some vk \<and> \<not> truthy vk \<longrightarrow>
      opt_get (useParams (snd (build b (withEntity b e w)))) ''kind'' = JStr ''Component'')
   \<and> (field_path e [''metadata'', ''name''] = Some vm \<and> \<not> truthy vm \<longrightarrow>
      opt_get (useParams (snd (build b (withEntity b e w)))) ''name'' = JStr ''docs'')
   \<and> \<not> truthy (JStr '''')"
  unfolding params_namespace params_kind params_name
  by (simp add: namespace_entityName kind_entityName name_entityName)

text \<open>An entity whose three fields are present and empty: all three are defaulted.\<close>

theorem C10_falsy_field_witness:
  "field_path (obj [(''kind'', JStr ''''), (''metadata'', obj [(''namespace'', JStr ''''), (''name'', JStr '''')])])
     [''metadata'', ''namespace''] = Some (JStr '''')
   \<and> field_path (obj [(''kind'', JStr ''''), (''metadata'', obj [(''namespace'', JStr ''''), (''name'', JStr '''')])])
     [''kind''] = Some (JStr '''')
   \<and> field_path (obj [(''kind'', JStr ''''), (''metadata'', obj [(''namespace'', JStr ''''), (''name'', JStr '''')])])
     [''metadata'', ''name''] = Some (JStr '''')
   \<and> \<not> truthy (JStr '''')
   \<and> opt_get (useParams (snd (build (buildAddonsInTechDocs [])
     (withEntity (buildAddonsInTechDocs [])
        (obj [(''kind'', JStr ''''), (''metadata'', obj [(''namespace'', JStr ''''), (''name'', JStr '''')])])
        module_init)))) ''namespace'' = JStr ''default''
   \<and> opt_get (useParams (snd (build (buildAddonsInTechDocs [])
     (withEntity (buildAddonsInTechDocs [])
        (obj [(''kind'', JStr ''''), (''metadata'', obj [(''namespace'', JStr ''''), (''name'', JStr '''')])])
        module_init)))) ''kind'' = JStr ''Component''
   \<and> opt_get (useParams (snd (build (buildAddonsInTechDocs [])
     (withEntity (buildAddonsInTechDocs [])
        (obj [(''kind'', JStr ''''), (''metadata'', obj [(''namespace'', JStr ''''), (''name'', JStr '''')])])
        module_init)))) ''name'' = JStr ''docs''"
  using C10_falsy_field_takes_default
    [of "obj [(''kind'', JStr ''''), (''metadata'', obj [(''namespace'', JStr ''''), (''name'', JStr '''')])]"
        "JStr ''''" "buildAddonsInTechDocs []" module_init "JStr ''''" "JStr ''''"]
  by (simp add: obj_def fn_def Object_prototype_def Function_prototype_def)

end
